theory Spec2Isabelle
  imports Main
begin

section \<open>Strings\<close>

text \<open>
  Texts are \<open>string\<close>s, a \<open>char\<close> standing for a code unit below 256.
  \<open>String.prototype.trim\<close> removes white space and line terminators from both ends; in
  that range these are tab, line feed, vertical tab, form feed, carriage return, space and
  no-break space.
\<close>

definition isWhiteSpace :: "char \<Rightarrow> bool" where
  "isWhiteSpace c =
     (c \<in> set [CHR 0x09, CHR 0x0A, CHR 0x0B, CHR 0x0C, CHR 0x0D, CHR 0x20, CHR 0xA0])"

definition trim :: "string \<Rightarrow> string" where
  "trim s = rev (dropWhile isWhiteSpace (rev (dropWhile isWhiteSpace s)))"

section \<open>Data of the interview pages\<close>

datatype question_type = technical | behavioral

record question =
  qid :: string
  qtext :: string
  qtype :: question_type

record interview_config =
  role :: string
  customJobDescription :: string
  interviewType :: string
  difficulty :: int
  duration :: int
  inputMethod :: string

datatype item_type = question_item | answer_item

record conversation_item =
  itype :: item_type
  content :: string
  timestamp :: int

text \<open>The object \<open>interviewData\<close> that \<open>endInterview\<close> builds.\<close>

record interview_data =
  d_config :: "interview_config option"
  d_conversation :: "conversation_item list"
  completedAt :: int
  questionsAnswered :: nat
  d_totalQuestions :: nat

text \<open>
  What a handler does to the world outside the component: a write to \<open>localStorage\<close>
  (the value before \<open>JSON.stringify\<close>), a \<open>router.push\<close>, an \<open>alert\<close>.
\<close>

datatype stored = StoredConfig interview_config | StoredInterview interview_data

datatype effect = SetItem string stored | Push string | Alert string

section \<open>The interview session page\<close>

text \<open>The \<open>useState\<close> cells of \<open>InterviewSessionPage\<close>.\<close>

record session_page =
  config :: "interview_config option"
  currentQuestion :: "question option"
  questionIndex :: nat
  totalQuestions :: nat
  answer :: string
  isRecording :: bool
  isLoading :: bool
  timeRemaining :: int
  sessionStarted :: bool
  conversation :: "conversation_item list"
  error :: string
  speechSupported :: bool

definition initialPage :: session_page where
  "initialPage =
     \<lparr>config = None, currentQuestion = None, questionIndex = 0, totalQuestions = 8,
      answer = [], isRecording = False, isLoading = False, timeRemaining = 0,
      sessionStarted = False, conversation = [], error = [], speechSupported = False\<rparr>"

definition mockQuestions :: "question list" where
  "mockQuestions =
     [\<lparr>qid = ''1'',
       qtext = ''Tell me about yourself and your background in software engineering.'',
       qtype = behavioral\<rparr>,
      \<lparr>qid = ''2'',
       qtext = ''How would you approach debugging a performance issue in a web application?'',
       qtype = technical\<rparr>,
      \<lparr>qid = ''3'',
       qtext = ''Describe a challenging project you worked on and how you overcame obstacles.'',
       qtype = behavioral\<rparr>,
      \<lparr>qid = ''4'',
       qtext = ''Explain the difference between SQL and NoSQL databases and when you would use each.'',
       qtype = technical\<rparr>,
      \<lparr>qid = ''5'',
       qtext = ''How do you handle working with difficult team members?'',
       qtype = behavioral\<rparr>,
      \<lparr>qid = ''6'',
       qtext = ''Design a system to handle 1 million concurrent users.'',
       qtype = technical\<rparr>,
      \<lparr>qid = ''7'',
       qtext = ''What motivates you in your work?'',
       qtype = behavioral\<rparr>,
      \<lparr>qid = ''8'',
       qtext = ''Do you have any questions for me about the role or company?'',
       qtype = behavioral\<rparr>]"

text \<open>
  A handler is a closure of one render: it reads the state values of that render
  (\<open>snap\<close>) and queues updates, which apply to the pending state (\<open>st\<close>). The result
  is the pending state after the handler's updates, with the effects it performed.
  \<open>now\<close> is the clock read by \<open>new Date()\<close> while the handler runs.

  \<open>mockQuestions[questionIndex] || mockQuestions[0]\<close>: an index past the end reads
  \<open>undefined\<close> and falls back to the first question.
\<close>

definition pickQuestion :: "nat \<Rightarrow> question" where
  "pickQuestion i = (if i < length mockQuestions then mockQuestions ! i else mockQuestions ! 0)"

definition generateNextQuestion :: "session_page \<Rightarrow> int \<Rightarrow> session_page \<Rightarrow> session_page" where
  "generateNextQuestion snap now st =
     (let q = pickQuestion (questionIndex snap)
      in st\<lparr>currentQuestion := Some q,
            conversation := conversation st @
              [\<lparr>itype = question_item, content = qtext q, timestamp = now\<rparr>],
            isLoading := False\<rparr>)"

definition interviewData :: "session_page \<Rightarrow> int \<Rightarrow> interview_data" where
  "interviewData snap now =
     \<lparr>d_config = config snap, d_conversation = conversation snap, completedAt = now,
      questionsAnswered = questionIndex snap + 1,
      d_totalQuestions = totalQuestions snap\<rparr>"

definition endInterview :: "session_page \<Rightarrow> int \<Rightarrow> effect list" where
  "endInterview snap now =
     [SetItem ''lastInterview'' (StoredInterview (interviewData snap now)),
      Push ''/interview/feedback'']"

definition submitAnswer :: "session_page \<Rightarrow> int \<Rightarrow> session_page \<Rightarrow> session_page \<times> effect list" where
  "submitAnswer snap now st =
     (if trim (answer snap) = []
      then (st\<lparr>error := ''Please provide an answer before continuing.''\<rparr>, [])
      else
        (let st1 = st\<lparr>isLoading := True,
                       conversation := conversation st @
                         [\<lparr>itype = answer_item, content = answer snap, timestamp = now\<rparr>],
                       answer := []\<rparr>
         in if questionIndex snap + 1 < totalQuestions snap
            then ((generateNextQuestion snap now
                     (st1\<lparr>questionIndex := questionIndex st1 + 1\<rparr>))\<lparr>isLoading := False\<rparr>, [])
            else (st1\<lparr>isLoading := False\<rparr>, endInterview snap now)))"

definition startInterview :: "session_page \<Rightarrow> int \<Rightarrow> session_page \<Rightarrow> session_page" where
  "startInterview snap now st =
     (generateNextQuestion snap now (st\<lparr>isLoading := True\<rparr>))
       \<lparr>sessionStarted := True, isLoading := False\<rparr>"

text \<open>
  The mount effect: \<open>savedConfig\<close> is the parsed \<open>localStorage\<close> entry
  \<open>interviewConfig\<close> (or \<open>None\<close>), \<open>speech\<close> says whether the browser has a speech
  recognition constructor.
\<close>

definition mountEffect ::
  "interview_config option \<Rightarrow> bool \<Rightarrow> session_page \<Rightarrow> int \<Rightarrow> session_page \<Rightarrow> session_page \<times> effect list" where
  "mountEffect savedConfig speech snap now st =
     (case savedConfig of
        None \<Rightarrow> (st, [Push ''/interview/setup''])
      | Some parsedConfig \<Rightarrow>
          (startInterview snap now
             (st\<lparr>config := Some parsedConfig,
                 timeRemaining := duration parsedConfig * 60,
                 speechSupported := speech\<rparr>), []))"

text \<open>
  The page with what surrounds it: the effects performed so far, and whether a timeout of
  the timer effect is pending (\<open>timerRef\<close>).
\<close>

record session_world =
  page :: session_page
  trace :: "effect list"
  timerArmed :: bool

text \<open>
  The timer effect, run after a render whose \<open>timeRemaining\<close> or \<open>sessionStarted\<close>
  differs from the previous one; its cleanup clears the pending timeout first.
\<close>

definition timerEffect :: "int \<Rightarrow> session_world \<Rightarrow> session_world" where
  "timerEffect now w =
     (if sessionStarted (page w) \<and> 0 < timeRemaining (page w)
      then w\<lparr>timerArmed := True\<rparr>
      else if timeRemaining (page w) = 0 \<and> sessionStarted (page w)
      then w\<lparr>trace := trace w @ endInterview (page w) now\<rparr>
      else w)"

definition deps :: "session_page \<Rightarrow> int \<times> bool" where
  "deps s = (timeRemaining s, sessionStarted s)"

definition commit :: "int \<Rightarrow> session_page \<Rightarrow> session_world \<Rightarrow> session_world" where
  "commit now old w =
     (if deps (page w) = deps old then w else timerEffect now (w\<lparr>timerArmed := False\<rparr>))"

definition perform :: "session_world \<Rightarrow> session_page \<times> effect list \<Rightarrow> session_world" where
  "perform w r = w\<lparr>page := fst r, trace := trace w @ snd r\<rparr>"

definition mount :: "interview_config option \<Rightarrow> bool \<Rightarrow> int \<Rightarrow> session_world" where
  "mount savedConfig speech now =
     commit now initialPage
       (perform \<lparr>page = initialPage, trace = [], timerArmed = False\<rparr>
          (mountEffect savedConfig speech initialPage now initialPage))"

text \<open>
  The events of a mounted page, each handled to completion before the next one. The
  interview markup, with its buttons and text area, is rendered only once \<open>config\<close>
  is loaded; the speech callbacks exist only when a recogniser was created; the timeout
  callback runs only while a timeout is pending. Buttons that the markup hides or disables
  are left enabled here, so the events below cover what the page can receive.
  \<open>StartRecording throws\<close> says whether \<open>speechRecognition.start()\<close> throws.
\<close>

datatype event =
    Change string
  | ClearClick
  | SubmitClick
  | EndClick
  | Tick
  | StartRecording bool
  | StopRecording
  | SpeechResult string
  | SpeechError
  | SpeechEnd

fun handle :: "int \<Rightarrow> event \<Rightarrow> session_world \<Rightarrow> session_world" where
  "handle now (Change v) w = w\<lparr>page := (page w)\<lparr>answer := v\<rparr>\<rparr>"
| "handle now ClearClick w = w\<lparr>page := (page w)\<lparr>answer := []\<rparr>\<rparr>"
| "handle now SubmitClick w = perform w (submitAnswer (page w) now (page w))"
| "handle now EndClick w = perform w (page w, endInterview (page w) now)"
| "handle now Tick w =
     w\<lparr>page := (page w)\<lparr>timeRemaining := timeRemaining (page w) - 1\<rparr>, timerArmed := False\<rparr>"
| "handle now (StartRecording throws) w =
     (if \<not> speechSupported (page w)
      then w\<lparr>page := (page w)\<lparr>error := ''Speech recognition not supported in your browser.''\<rparr>\<rparr>
      else if throws
      then w\<lparr>page := (page w)
             \<lparr>error := ''Failed to start recording. Please check microphone permissions.'',
              isRecording := False\<rparr>\<rparr>
      else w\<lparr>page := (page w)\<lparr>isRecording := True, error := []\<rparr>\<rparr>)"
| "handle now StopRecording w = w\<lparr>page := (page w)\<lparr>isRecording := False\<rparr>\<rparr>"
| "handle now (SpeechResult transcript) w =
     w\<lparr>page := (page w)\<lparr>answer := answer (page w) @ '' '' @ transcript\<rparr>\<rparr>"
| "handle now SpeechError w =
     w\<lparr>page := (page w)
       \<lparr>error := ''Speech recognition error. Please try typing your answer.'',
        isRecording := False\<rparr>\<rparr>"
| "handle now SpeechEnd w = w\<lparr>page := (page w)\<lparr>isRecording := False\<rparr>\<rparr>"

fun enabled :: "event \<Rightarrow> session_world \<Rightarrow> bool" where
  "enabled Tick w = timerArmed w"
| "enabled (SpeechResult transcript) w = speechSupported (page w)"
| "enabled SpeechError w = speechSupported (page w)"
| "enabled SpeechEnd w = speechSupported (page w)"
| "enabled ev w = (config (page w) \<noteq> None)"

definition step :: "int \<Rightarrow> event \<Rightarrow> session_world \<Rightarrow> session_world" where
  "step now ev w = (if enabled ev w then commit now (page w) (handle now ev w) else w)"

text \<open>
  The page has no status cell: a session has ended once \<open>endInterview\<close> has called
  \<open>router.push\<close> with the feedback route, which leaves the session page. \<open>step\<close>
  is the page's reaction to one event, whatever happened before. \<open>deliver\<close> hands a
  sequence of timed events to the page one after the other, also after the session has
  ended: the page takes events as long as it is mounted. \<open>run\<close> hands them over only
  until the session has ended.
\<close>

definition ended :: "session_world \<Rightarrow> bool" where
  "ended w = (Push ''/interview/feedback'' \<in> set (trace w))"

fun run :: "(int \<times> event) list \<Rightarrow> session_world \<Rightarrow> session_world" where
  "run [] w = w"
| "run ((now, ev) # evs) w = run evs (if ended w then w else step now ev w)"

fun deliver :: "(int \<times> event) list \<Rightarrow> session_world \<Rightarrow> session_world" where
  "deliver [] w = w"
| "deliver ((now, ev) # evs) w = deliver evs (step now ev w)"

section \<open>Observations on the conversation log and on the effects\<close>

definition questionCount :: "conversation_item list \<Rightarrow> nat" where
  "questionCount c = length (filter (\<lambda>i. itype i = question_item) c)"

definition answerCount :: "conversation_item list \<Rightarrow> nat" where
  "answerCount c = length (filter (\<lambda>i. itype i = answer_item) c)"

text \<open>No two neighbours of the same kind.\<close>

fun alternating :: "item_type list \<Rightarrow> bool" where
  "alternating (x # y # zs) = (x \<noteq> y \<and> alternating (y # zs))"
| "alternating zs = True"

text \<open>No two neighbouring questions.\<close>

fun noAdjacentQuestions :: "item_type list \<Rightarrow> bool" where
  "noAdjacentQuestions (x # y # zs) =
     (\<not> (x = question_item \<and> y = question_item) \<and> noAdjacentQuestions (y # zs))"
| "noAdjacentQuestions zs = True"

text \<open>The records written under \<open>lastInterview\<close>, oldest first.\<close>

fun persisted :: "effect list \<Rightarrow> interview_data list" where
  "persisted [] = []"
| "persisted (SetItem k (StoredInterview d) # es) =
     (if k = ''lastInterview'' then d # persisted es else persisted es)"
| "persisted (e # es) = persisted es"

fun storedConfigs :: "effect list \<Rightarrow> interview_config list" where
  "storedConfigs [] = []"
| "storedConfigs (SetItem k (StoredConfig c) # es) =
     (if k = ''interviewConfig'' then c # storedConfigs es else storedConfigs es)"
| "storedConfigs (e # es) = storedConfigs es"

fun pushes :: "effect list \<Rightarrow> string list" where
  "pushes [] = []"
| "pushes (Push p # es) = p # pushes es"
| "pushes (e # es) = pushes es"

fun alerts :: "effect list \<Rightarrow> string list" where
  "alerts [] = []"
| "alerts (Alert m # es) = m # alerts es"
| "alerts (e # es) = alerts es"

section \<open>The setup page\<close>

text \<open>
  The \<open>useState\<close> cells of \<open>InterviewSetupPage\<close>. The two sliders hold one-element
  arrays; \<open>s_difficulty\<close> and \<open>s_duration\<close> stand for that element.
\<close>

record setup_page =
  selectedRole :: string
  s_customJobDescription :: string
  s_interviewType :: string
  s_difficulty :: int
  s_duration :: int
  s_inputMethod :: string

definition initialSetup :: setup_page where
  "initialSetup =
     \<lparr>selectedRole = [], s_customJobDescription = [], s_interviewType = ''technical'',
      s_difficulty = 2, s_duration = 20, s_inputMethod = ''both''\<rparr>"

definition handleStartInterview :: "setup_page \<Rightarrow> effect list" where
  "handleStartInterview s =
     (if selectedRole s = [] \<and> trim (s_customJobDescription s) = []
      then [Alert ''Please select a role or provide a job description'']
      else [SetItem ''interviewConfig''
              (StoredConfig
                \<lparr>role = selectedRole s, customJobDescription = s_customJobDescription s,
                 interviewType = s_interviewType s, difficulty = s_difficulty s,
                 duration = s_duration s, inputMethod = s_inputMethod s\<rparr>),
            Push ''/interview/session''])"

section \<open>The API client\<close>

text \<open>
  A parsed JSON value; numbers are kept as integers, of which \<open>request\<close> only asks
  whether they are zero.
\<close>

datatype json_value =
    JNull
  | JBool bool
  | JNumber int
  | JString string
  | JArray "json_value list"
  | JObject "(string \<times> json_value) list"

text \<open>A thrown value: an \<open>Error\<close> with its message, or anything else.\<close>

datatype thrown = ErrorInstance string | NotAnError

text \<open>The fields of \<open>RequestInit\<close> that the client sets: method, headers and body.\<close>

record request_init =
  init_method :: "string option"
  init_headers :: "(string \<times> string) list"
  init_body :: "string option"

text \<open>What \<open>request\<close> reads of a response; \<open>json\<close> is the outcome of \<open>response.json()\<close>.\<close>

record response =
  ok :: bool
  status :: nat
  json :: "thrown + json_value"

text \<open>\<open>ApiResponse\<close>: every field is optional, \<open>None\<close> is an absent key.\<close>

record api_response =
  resp_data :: "json_value option"
  resp_error :: "json_value option"
  resp_message :: "string option"

fun setHeader :: "string \<Rightarrow> string \<Rightarrow> (string \<times> string) list \<Rightarrow> (string \<times> string) list" where
  "setHeader k v [] = [(k, v)]"
| "setHeader k v ((k', v') # hs) =
     (if k = k' then (k, v) # hs else (k', v') # setHeader k v hs)"

fun truthy :: "json_value \<Rightarrow> bool" where
  "truthy JNull = False"
| "truthy (JBool b) = b"
| "truthy (JNumber n) = (n \<noteq> 0)"
| "truthy (JString s) = (s \<noteq> [])"
| "truthy (JArray xs) = True"
| "truthy (JObject kvs) = True"

text \<open>
  \<open>data.message\<close>: reading a property of \<open>null\<close> throws a \<open>TypeError\<close>, an object
  gives its entry (the last one of a repeated key) or \<open>undefined\<close>, any other value
  gives \<open>undefined\<close>.
\<close>

fun getMessage :: "json_value \<Rightarrow> thrown + json_value option" where
  "getMessage JNull = Inl (ErrorInstance ''Cannot read properties of null'')"
| "getMessage (JObject kvs) = Inr (map_of (rev kvs) ''message'')"
| "getMessage v = Inr None"

fun showNat :: "nat \<Rightarrow> string" where
  "showNat n =
     (if n < 10 then [''0123456789'' ! n]
      else showNat (n div 10) @ [''0123456789'' ! (n mod 10)])"

text \<open>The \<open>catch\<close> clause of \<open>request\<close>.\<close>

definition caught :: "thrown \<Rightarrow> api_response" where
  "caught e =
     \<lparr>resp_data = None,
      resp_error = Some (JString (case e of ErrorInstance m \<Rightarrow> m
                                  | NotAnError \<Rightarrow> ''Network error occurred'')),
      resp_message = None\<rparr>"

text \<open>
  \<open>ApiClient.request\<close>, with the client's \<open>baseUrl\<close> and \<open>token\<close> and with the network
  as a parameter: \<open>fetch\<close> throws or resolves to a response.
\<close>

definition request ::
  "string \<Rightarrow> string option \<Rightarrow> (string \<Rightarrow> request_init \<Rightarrow> thrown + response) \<Rightarrow>
   string \<Rightarrow> request_init \<Rightarrow> api_response" where
  "request baseUrl token fetch endpoint options =
     (let url = baseUrl @ endpoint;
          headers0 = fold (\<lambda>(k, v). setHeader k v) (init_headers options)
                       [(''Content-Type'', ''application/json'')];
          headers1 = (case token of
                        None \<Rightarrow> headers0
                      | Some t \<Rightarrow> if t = [] then headers0
                                  else setHeader ''Authorization'' (''Bearer '' @ t) headers0)
      in case fetch url (options\<lparr>init_headers := headers1\<rparr>) of
           Inl e \<Rightarrow> caught e
         | Inr response \<Rightarrow>
             (case json response of
                Inl e \<Rightarrow> caught e
              | Inr data \<Rightarrow>
                  if \<not> ok response
                  then (case getMessage data of
                          Inl e \<Rightarrow> caught e
                        | Inr m \<Rightarrow>
                            \<lparr>resp_data = None,
                             resp_error =
                               Some (case m of
                                       Some v \<Rightarrow>
                                         if truthy v then v
                                         else JString (''HTTP error! status: '' @
                                                       showNat (status response))
                                     | None \<Rightarrow>
                                         JString (''HTTP error! status: '' @
                                                  showNat (status response))),
                             resp_message = None\<rparr>)
                  else \<lparr>resp_data = Some data, resp_error = None, resp_message = None\<rparr>))"

section \<open>Example inputs\<close>

definition exampleConfig :: interview_config where
  "exampleConfig =
     \<lparr>role = ''software-engineer'', customJobDescription = [], interviewType = ''technical'',
      difficulty = 2, duration = 20, inputMethod = ''text''\<rparr>"

definition eightAnswers :: "(int \<times> event) list" where
  "eightAnswers =
     [(1, Change ''a''), (1, SubmitClick), (2, Change ''b''), (2, SubmitClick),
      (3, Change ''c''), (3, SubmitClick), (4, Change ''d''), (4, SubmitClick),
      (5, Change ''e''), (5, SubmitClick), (6, Change ''f''), (6, SubmitClick),
      (7, Change ''g''), (7, SubmitClick), (8, Change ''h''), (8, SubmitClick)]"

text \<open>The eight answers, and a ninth one typed and submitted after the session has ended.\<close>

definition nineAnswers :: "(int \<times> event) list" where
  "nineAnswers = eightAnswers @ [(9, Change ''i''), (9, SubmitClick)]"

definition mixedEvents :: "(int \<times> event) list" where
  "mixedEvents =
     [(1, Tick), (2, Change ''Five years of backend work''), (3, SubmitClick), (4, Tick),
      (5, SpeechResult ''hello''), (6, SubmitClick), (7, StartRecording False), (8, SpeechEnd),
      (9, EndClick), (10, Change ''late''), (11, SubmitClick)]"

definition firstAnswerPage :: session_page where
  "firstAnswerPage = (page (mount (Some exampleConfig) False 0))\<lparr>answer := ''a''\<rparr>"

definition blankAnswerPage :: session_page where
  "blankAnswerPage = (page (mount (Some exampleConfig) False 0))\<lparr>answer := ''   ''\<rparr>"

definition oneAnswered :: session_world where
  "oneAnswered = run [(1, Change ''a''), (1, SubmitClick)] (mount (Some exampleConfig) False 0)"

text \<open>Seven questions answered and the answer to the eighth typed, not yet submitted.\<close>

definition lastQuestion :: session_world where
  "lastQuestion = run (butlast eightAnswers) (mount (Some exampleConfig) False 0)"

text \<open>The session of \<open>exampleConfig\<close> after 1199 of its 1200 seconds.\<close>

definition lastSecond :: session_world where
  "lastSecond = run (replicate 1199 (0, Tick)) (mount (Some exampleConfig) False 0)"

definition roleAndDescription :: setup_page where
  "roleAndDescription =
     initialSetup\<lparr>selectedRole := ''software-engineer'',
       s_customJobDescription := ''Backend engineer for payments''\<rparr>"

definition okNull :: "string \<Rightarrow> request_init \<Rightarrow> thrown + response" where
  "okNull url init = Inr \<lparr>ok = True, status = 200, json = Inr JNull\<rparr>"

definition notFound :: "string \<Rightarrow> request_init \<Rightarrow> thrown + response" where
  "notFound url init =
     Inr \<lparr>ok = False, status = 404, json = Inr (JObject [(''detail'', JString ''Not Found'')])\<rparr>"

definition offline :: "string \<Rightarrow> request_init \<Rightarrow> thrown + response" where
  "offline url init = Inl (ErrorInstance ''Failed to fetch'')"

definition getInit :: request_init where
  "getInit = \<lparr>init_method = None, init_headers = [], init_body = None\<rparr>"

section \<open>Invariants of a session\<close>

text \<open>
  \<open>rounds n\<close> is the kinds of \<open>n\<close> answered questions. While a session runs its log is
  \<open>rounds questionIndex\<close> followed by the open question; the last answer closes the last
  round and ends the session.
\<close>

definition rounds :: "nat \<Rightarrow> item_type list" where
  "rounds n = concat (replicate n [question_item, answer_item])"

definition conv_inv :: "session_world \<Rightarrow> bool" where
  "conv_inv w =
     (totalQuestions (page w) = 8 \<and> questionIndex (page w) < 8 \<and>
      (case config (page w) of
         None \<Rightarrow> conversation (page w) = []
       | Some c \<Rightarrow>
           sessionStarted (page w) \<and>
           (map itype (conversation (page w)) = rounds (questionIndex (page w)) @ [question_item]
            \<or> ended w \<and>
              map itype (conversation (page w)) = rounds (Suc (questionIndex (page w))))))"

text \<open>
  With events taken after the end as well, answers submitted after the eighth one pile up
  behind the last question.
\<close>

definition log_inv :: "session_world \<Rightarrow> bool" where
  "log_inv w =
     (totalQuestions (page w) = 8 \<and> questionIndex (page w) < 8 \<and>
      (case config (page w) of
         None \<Rightarrow> conversation (page w) = []
       | Some c \<Rightarrow>
           (\<exists>k. map itype (conversation (page w)) =
                  rounds (questionIndex (page w)) @ [question_item] @ replicate k answer_item
                \<and> (k = 0 \<or> questionIndex (page w) = 7))))"

definition time_inv :: "session_world \<Rightarrow> bool" where
  "time_inv w =
     (0 \<le> timeRemaining (page w) \<and> (timerArmed w \<longrightarrow> 0 < timeRemaining (page w)))"

definition once_inv :: "session_world \<Rightarrow> bool" where
  "once_inv w =
     (if ended w then length (persisted (trace w)) = 1 else persisted (trace w) = [])"

subsection \<open>Counting and alternation of rounds\<close>

lemma rounds_Suc: "rounds (Suc n) = rounds n @ [question_item, answer_item]"
  unfolding rounds_def by (induction n) simp_all

lemma rounds_Cons: "rounds (Suc n) = question_item # answer_item # rounds n"
  unfolding rounds_def by simp

lemma count_q_rounds: "length (filter (\<lambda>k. k = question_item) (rounds n)) = n"
  by (induction n) (simp_all add: rounds_Cons rounds_def [of 0])

lemma count_a_rounds: "length (filter (\<lambda>k. k = answer_item) (rounds n)) = n"
  by (induction n) (simp_all add: rounds_Cons rounds_def [of 0])

lemma questionCount_map:
  "questionCount c = length (filter (\<lambda>k. k = question_item) (map itype c))"
  by (simp add: questionCount_def filter_map comp_def)

lemma answerCount_map:
  "answerCount c = length (filter (\<lambda>k. k = answer_item) (map itype c))"
  by (simp add: answerCount_def filter_map comp_def)

lemma counts_open:
  assumes "map itype c = rounds n @ [question_item]"
  shows "questionCount c = Suc n" and "answerCount c = n"
  unfolding questionCount_map answerCount_map assms
  by (simp_all add: count_q_rounds count_a_rounds)

lemma counts_closed:
  assumes "map itype c = rounds n"
  shows "questionCount c = n" and "answerCount c = n"
  unfolding questionCount_map answerCount_map assms
  by (simp_all add: count_q_rounds count_a_rounds)

lemma alternating_rounds_append:
  "t = [] \<or> t = [question_item] \<Longrightarrow> alternating (rounds n @ t)"
proof (induction n)
  case 0
  then show ?case by (auto simp: rounds_def)
next
  case (Suc n)
  have "rounds n @ t = [] \<or> (\<exists>ys. rounds n @ t = question_item # ys)"
    using Suc.prems by (cases n) (auto simp: rounds_Cons rounds_def [of 0])
  then show ?case
  proof
    assume "rounds n @ t = []"
    then show ?thesis by (simp add: rounds_Cons)
  next
    assume "\<exists>ys. rounds n @ t = question_item # ys"
    then obtain ys where ys: "rounds n @ t = question_item # ys" by blast
    have "alternating (question_item # ys)"
      using Suc.IH [OF Suc.prems] by (simp only: ys)
    then show ?thesis by (simp add: rounds_Cons ys)
  qed
qed

lemma counts_tail:
  assumes "map itype c = rounds n @ [question_item] @ replicate k answer_item"
  shows "questionCount c = Suc n" and "answerCount c = n + k"
  unfolding questionCount_map answerCount_map assms
  by (simp_all add: count_q_rounds count_a_rounds)

lemma noAdjacentQuestions_answers: "noAdjacentQuestions (x # replicate k answer_item)"
  by (induction k arbitrary: x) simp_all

lemma noAdjacentQuestions_tail:
  "noAdjacentQuestions (rounds n @ [question_item] @ replicate k answer_item)"
proof (induction n)
  case 0
  show ?case by (simp add: rounds_def noAdjacentQuestions_answers)
next
  case (Suc n)
  obtain ys where "rounds n @ [question_item] @ replicate k answer_item = question_item # ys"
    by (cases n) (auto simp: rounds_Cons rounds_def [of 0])
  with Suc show ?case by (simp add: rounds_Cons)
qed

subsection \<open>What a render and a step preserve\<close>

lemma commit_page: "page (commit now old w) = page w"
  by (simp add: commit_def timerEffect_def)

lemma commit_ended: "ended w \<Longrightarrow> ended (commit now old w)"
  by (simp add: commit_def timerEffect_def ended_def)

lemma conv_inv_commit: "conv_inv w \<Longrightarrow> conv_inv (commit now old w)"
  unfolding conv_inv_def using commit_ended [of w now old]
  by (auto simp: commit_page split: option.splits)

lemma conv_inv_handle:
  "conv_inv w \<Longrightarrow> \<not> ended w \<Longrightarrow> enabled ev w \<Longrightarrow> conv_inv (handle now ev w)"
proof (cases ev)
  case SubmitClick
  assume "conv_inv w" "\<not> ended w" "enabled ev w"
  then show ?thesis using SubmitClick
    by (auto simp: conv_inv_def perform_def submitAnswer_def generateNextQuestion_def Let_def
          rounds_Suc ended_def endInterview_def split: option.splits)
next
  case EndClick
  assume "conv_inv w" "\<not> ended w" "enabled ev w"
  then show ?thesis using EndClick
    by (auto simp: conv_inv_def perform_def ended_def split: option.splits)
qed (auto simp: conv_inv_def ended_def split: option.splits)

lemma conv_inv_step: "conv_inv w \<Longrightarrow> \<not> ended w \<Longrightarrow> conv_inv (step now ev w)"
  by (simp add: step_def conv_inv_commit conv_inv_handle)

lemma conv_inv_mount: "conv_inv (mount saved speech now)"
  unfolding mount_def
  by (rule conv_inv_commit)
     (auto simp: conv_inv_def perform_def mountEffect_def startInterview_def
        generateNextQuestion_def initialPage_def rounds_def Let_def
        split: option.splits)

lemma conv_inv_run: "conv_inv w \<Longrightarrow> conv_inv (run evs w)"
  by (induction evs w rule: run.induct) (simp_all add: conv_inv_step)

lemma conv_inv_questionCount:
  assumes "conv_inv w" and "config (page w) \<noteq> None"
  shows "questionCount (conversation (page w)) = questionIndex (page w) + 1"
  using assms unfolding conv_inv_def
  by (auto simp: counts_open counts_closed split: option.splits)

lemma log_inv_commit: "log_inv w \<Longrightarrow> log_inv (commit now old w)"
  unfolding log_inv_def by (simp add: commit_page split: option.splits)

lemma log_inv_handle: "log_inv w \<Longrightarrow> enabled ev w \<Longrightarrow> log_inv (handle now ev w)"
proof (cases ev)
  case SubmitClick
  assume inv: "log_inv w" and en: "enabled ev w"
  from en SubmitClick obtain c where c: "config (page w) = Some c" by auto
  from inv c obtain k where
    k: "map itype (conversation (page w)) =
          rounds (questionIndex (page w)) @ [question_item] @ replicate k answer_item"
    and k0: "k = 0 \<or> questionIndex (page w) = 7"
    by (auto simp: log_inv_def)
  from inv have t: "totalQuestions (page w) = 8" and q: "questionIndex (page w) < 8"
    by (simp_all add: log_inv_def)
  show ?thesis
  proof (cases "trim (answer (page w)) = []")
    case True
    with inv c show ?thesis using SubmitClick
      by (simp add: log_inv_def perform_def submitAnswer_def)
  next
    case False
    show ?thesis
    proof (cases "questionIndex (page w) + 1 < totalQuestions (page w)")
      case True
      with k0 t have "k = 0" by auto
      with k True False t q c show ?thesis using SubmitClick
        by (simp add: log_inv_def perform_def submitAnswer_def generateNextQuestion_def Let_def
              rounds_Suc)
    next
      case nlt: False
      with t q have q7: "questionIndex (page w) = 7" by simp
      let ?w' = "handle now ev w"
      have conv: "map itype (conversation (page ?w')) =
                    map itype (conversation (page w)) @ [answer_item]"
        using nlt False SubmitClick by (simp add: perform_def submitAnswer_def Let_def)
      have same: "questionIndex (page ?w') = questionIndex (page w)"
          "totalQuestions (page ?w') = totalQuestions (page w)"
          "config (page ?w') = config (page w)"
        using nlt False SubmitClick by (simp_all add: perform_def submitAnswer_def Let_def)
      have "map itype (conversation (page ?w')) =
              rounds (questionIndex (page ?w')) @ [question_item] @ replicate (Suc k) answer_item"
        unfolding conv same k by (simp add: replicate_append_same)
      moreover have "questionIndex (page ?w') = 7"
        using q7 same(1) by simp
      ultimately have "\<exists>j. map itype (conversation (page ?w')) =
                     rounds (questionIndex (page ?w')) @ [question_item] @ replicate j answer_item
                   \<and> (j = 0 \<or> questionIndex (page ?w') = 7)"
        by (intro exI [of _ "Suc k"] conjI disjI2)
      then show ?thesis
        unfolding log_inv_def [of ?w'] using t q c same by simp
    qed
  qed
qed (auto simp: log_inv_def perform_def split: option.splits)

lemma log_inv_step: "log_inv w \<Longrightarrow> log_inv (step now ev w)"
  by (simp add: step_def log_inv_commit log_inv_handle)

lemma log_inv_mount: "log_inv (mount saved speech now)"
  unfolding mount_def
  by (rule log_inv_commit)
     (auto simp: log_inv_def perform_def mountEffect_def startInterview_def
        generateNextQuestion_def initialPage_def rounds_def Let_def
        split: option.splits)

lemma log_inv_deliver: "log_inv w \<Longrightarrow> log_inv (deliver evs w)"
  by (induction evs w rule: deliver.induct) (simp_all add: log_inv_step)

lemma log_inv_run: "log_inv w \<Longrightarrow> log_inv (run evs w)"
  by (induction evs w rule: run.induct) (simp_all add: log_inv_step)

lemma log_inv_questionCount:
  assumes "log_inv w"
  shows "questionCount (conversation (page w)) \<le> 8"
proof (cases "config (page w)")
  case None
  with assms show ?thesis by (simp add: log_inv_def questionCount_def)
next
  case (Some c)
  with assms obtain k where
    "map itype (conversation (page w)) =
       rounds (questionIndex (page w)) @ [question_item] @ replicate k answer_item"
    by (auto simp: log_inv_def)
  from counts_tail(1) [OF this] assms show ?thesis by (simp add: log_inv_def)
qed

lemma time_inv_step: "time_inv w \<Longrightarrow> time_inv (step now ev w)"
  by (cases ev)
     (auto simp: step_def time_inv_def commit_def timerEffect_def deps_def perform_def
        submitAnswer_def generateNextQuestion_def Let_def)

lemma time_inv_mount: "0 \<le> duration cfg \<Longrightarrow> time_inv (mount (Some cfg) speech now)"
  by (auto simp: mount_def time_inv_def commit_def timerEffect_def deps_def perform_def
        mountEffect_def startInterview_def generateNextQuestion_def initialPage_def Let_def)

lemma time_inv_run: "time_inv w \<Longrightarrow> time_inv (run evs w)"
  by (induction evs w rule: run.induct) (simp_all add: time_inv_step)

lemma config_step: "config (page (step now ev w)) = config (page w)"
  by (cases ev)
     (simp_all add: step_def commit_page perform_def submitAnswer_def generateNextQuestion_def
        Let_def)

lemma config_run: "config (page (run evs w)) = config (page w)"
  by (induction evs w rule: run.induct) (simp_all add: config_step)

lemma config_mount: "config (page (mount (Some cfg) speech now)) = Some cfg"
  by (simp add: mount_def commit_page perform_def mountEffect_def startInterview_def
        generateNextQuestion_def Let_def)

lemma persisted_append: "persisted (xs @ ys) = persisted xs @ persisted ys"
  by (induction xs rule: persisted.induct) simp_all

lemma step_trace:
  "trace (step now ev w) = trace w \<or> (\<exists>s. trace (step now ev w) = trace w @ endInterview s now)"
  by (cases ev)
     (auto simp: step_def commit_def deps_def timerEffect_def perform_def submitAnswer_def
        generateNextQuestion_def Let_def)

lemma once_inv_step: "once_inv w \<Longrightarrow> \<not> ended w \<Longrightarrow> once_inv (step now ev w)"
  using step_trace [of now ev w]
  by (auto simp: once_inv_def ended_def persisted_append endInterview_def)

lemma once_inv_mount: "once_inv (mount saved speech now)"
  by (cases saved)
     (auto simp: once_inv_def ended_def mount_def commit_def timerEffect_def perform_def
        mountEffect_def endInterview_def)

lemma once_inv_run: "once_inv w \<Longrightarrow> once_inv (run evs w)"
  by (induction evs w rule: run.induct) (simp_all add: once_inv_step)

lemma persisted_run_le: "length (persisted (trace (run evs (mount saved speech t0)))) \<le> 1"
  using once_inv_run [OF once_inv_mount, of evs saved speech t0]
  by (simp add: once_inv_def split: if_splits)

text \<open>Seconds that pass without any other event only count the clock down.\<close>

lemma run_ticks:
  "timerArmed w \<Longrightarrow> sessionStarted (page w) \<Longrightarrow> int n < timeRemaining (page w) \<Longrightarrow>
   \<not> ended w \<Longrightarrow>
   run (replicate n (t, Tick)) w =
     w\<lparr>page := (page w)\<lparr>timeRemaining := timeRemaining (page w) - int n\<rparr>\<rparr>"
proof (induction n arbitrary: w)
  case 0
  then show ?case by simp
next
  case (Suc n)
  let ?w' = "w\<lparr>page := (page w)\<lparr>timeRemaining := timeRemaining (page w) - 1\<rparr>\<rparr>"
  have s: "step t Tick w = ?w'"
    using Suc.prems by (simp add: step_def commit_def deps_def timerEffect_def)
  have "run (replicate n (t, Tick)) ?w' =
          ?w'\<lparr>page := (page ?w')\<lparr>timeRemaining := timeRemaining (page ?w') - int n\<rparr>\<rparr>"
    using Suc.prems by (intro Suc.IH) (simp_all add: ended_def)
  then show ?case using Suc.prems(4) s by (simp add: algebra_simps)
qed

lemma lastSecond_eq:
  "lastSecond =
     (mount (Some exampleConfig) False 0)
       \<lparr>page := (page (mount (Some exampleConfig) False 0))\<lparr>timeRemaining := 1\<rparr>\<rparr>"
proof -
  let ?w = "mount (Some exampleConfig) False 0"
  have a: "timerArmed ?w" by code_simp
  have b: "sessionStarted (page ?w)" by code_simp
  have c: "timeRemaining (page ?w) = 1200" by code_simp
  have d: "\<not> ended ?w" by code_simp
  have "run (replicate 1199 (0, Tick)) ?w =
          ?w\<lparr>page := (page ?w)\<lparr>timeRemaining := timeRemaining (page ?w) - int 1199\<rparr>\<rparr>"
    using a b d by (intro run_ticks) (simp_all add: c)
  then show ?thesis by (simp add: lastSecond_def c)
qed

section \<open>Submitting an answer\<close>

text \<open>
  C1. With an answer that is not blank, \<open>submitAnswer\<close> appends exactly one answer entry and
  empties the answer buffer. If \<open>questionIndex + 1 < totalQuestions\<close> it then adds one to
  \<open>questionIndex\<close> and appends exactly one question entry, with no effect outside the page.
  Otherwise it appends no question and ends the session: it writes the interview record and
  navigates to the feedback page, so that the session has ended after the click, with the
  question count and \<open>questionIndex\<close> as before. \<open>totalQuestions\<close> is 8 and the log
  never holds a ninth question, whatever events the page takes, before or after the end.
\<close>

theorem submitAnswer_sequencing:
  assumes "trim (answer s) \<noteq> []"
  shows "(if questionIndex s + 1 < totalQuestions s
          then submitAnswer s now s =
                 (s\<lparr>conversation := conversation s @
                       [\<lparr>itype = answer_item, content = answer s, timestamp = now\<rparr>,
                        \<lparr>itype = question_item,
                         content = qtext (pickQuestion (questionIndex s)), timestamp = now\<rparr>],
                    answer := [],
                    questionIndex := questionIndex s + 1,
                    currentQuestion := Some (pickQuestion (questionIndex s)),
                    isLoading := False\<rparr>, [])
          else submitAnswer s now s =
                 (s\<lparr>conversation := conversation s @
                       [\<lparr>itype = answer_item, content = answer s, timestamp = now\<rparr>],
                    answer := [],
                    isLoading := False\<rparr>,
                  [SetItem ''lastInterview'' (StoredInterview (interviewData s now)),
                   Push ''/interview/feedback'']))
     \<and> (config (page w) \<noteq> None \<and> trim (answer (page w)) \<noteq> []
          \<and> \<not> questionIndex (page w) + 1 < totalQuestions (page w)
        \<longrightarrow> ended (step now SubmitClick w)
          \<and> trace (step now SubmitClick w) =
              trace w @ [SetItem ''lastInterview'' (StoredInterview (interviewData (page w) now)),
                         Push ''/interview/feedback'']
          \<and> questionCount (conversation (page (step now SubmitClick w)))
              = questionCount (conversation (page w))
          \<and> questionIndex (page (step now SubmitClick w)) = questionIndex (page w))
     \<and> totalQuestions (page (deliver evs (mount saved speech t0))) = 8
     \<and> questionCount (conversation (page (deliver evs (mount saved speech t0)))) \<le> 8
     \<and> totalQuestions (page (run evs (mount saved speech t0))) = 8
     \<and> questionCount (conversation (page (run evs (mount saved speech t0)))) \<le> 8"
proof -
  have d: "log_inv (deliver evs (mount saved speech t0))"
    by (rule log_inv_deliver) (rule log_inv_mount)
  have r: "log_inv (run evs (mount saved speech t0))"
    by (rule log_inv_run) (rule log_inv_mount)
  have counts: "questionCount (conversation (page (deliver evs (mount saved speech t0)))) \<le> 8"
      "questionCount (conversation (page (run evs (mount saved speech t0)))) \<le> 8"
    by (rule log_inv_questionCount [OF d]) (rule log_inv_questionCount [OF r])
  have totals: "totalQuestions (page (deliver evs (mount saved speech t0))) = 8"
      "totalQuestions (page (run evs (mount saved speech t0))) = 8"
    using d r by (simp_all add: log_inv_def)
  have last: "config (page w) \<noteq> None \<and> trim (answer (page w)) \<noteq> []
          \<and> \<not> questionIndex (page w) + 1 < totalQuestions (page w)
        \<longrightarrow> ended (step now SubmitClick w)
          \<and> trace (step now SubmitClick w) =
              trace w @ [SetItem ''lastInterview'' (StoredInterview (interviewData (page w) now)),
                         Push ''/interview/feedback'']
          \<and> questionCount (conversation (page (step now SubmitClick w)))
              = questionCount (conversation (page w))
          \<and> questionIndex (page (step now SubmitClick w)) = questionIndex (page w)"
    by (simp add: step_def commit_def deps_def perform_def submitAnswer_def endInterview_def
          ended_def questionCount_def Let_def)
  have branch: "(if questionIndex s + 1 < totalQuestions s
          then submitAnswer s now s =
                 (s\<lparr>conversation := conversation s @
                       [\<lparr>itype = answer_item, content = answer s, timestamp = now\<rparr>,
                        \<lparr>itype = question_item,
                         content = qtext (pickQuestion (questionIndex s)), timestamp = now\<rparr>],
                    answer := [],
                    questionIndex := questionIndex s + 1,
                    currentQuestion := Some (pickQuestion (questionIndex s)),
                    isLoading := False\<rparr>, [])
          else submitAnswer s now s =
                 (s\<lparr>conversation := conversation s @
                       [\<lparr>itype = answer_item, content = answer s, timestamp = now\<rparr>],
                    answer := [],
                    isLoading := False\<rparr>,
                  [SetItem ''lastInterview'' (StoredInterview (interviewData s now)),
                   Push ''/interview/feedback'']))"
    using assms
    by (simp add: submitAnswer_def generateNextQuestion_def endInterview_def Let_def)
  show ?thesis
    using branch last counts totals by (intro conjI)
qed

theorem submitAnswer_sequencing_witness:
  "trim (answer firstAnswerPage) \<noteq> []
   \<and> questionIndex firstAnswerPage = 0
   \<and> questionIndex (fst (submitAnswer firstAnswerPage 1 firstAnswerPage)) = 1
   \<and> map itype (conversation (fst (submitAnswer firstAnswerPage 1 firstAnswerPage)))
       = [question_item, answer_item, question_item]
   \<and> answer (fst (submitAnswer firstAnswerPage 1 firstAnswerPage)) = []
   \<and> snd (submitAnswer firstAnswerPage 1 firstAnswerPage) = []
   \<and> trim (answer (page lastQuestion)) \<noteq> []
   \<and> config (page lastQuestion) \<noteq> None
   \<and> questionIndex (page lastQuestion) = 7
   \<and> questionCount (conversation (page lastQuestion)) = 8
   \<and> \<not> ended lastQuestion
   \<and> pushes (snd (submitAnswer (page lastQuestion) 8 (page lastQuestion)))
       = [''/interview/feedback'']
   \<and> persisted (snd (submitAnswer (page lastQuestion) 8 (page lastQuestion)))
       = [interviewData (page lastQuestion) 8]
   \<and> answer (fst (submitAnswer (page lastQuestion) 8 (page lastQuestion))) = []
   \<and> answerCount (conversation (fst (submitAnswer (page lastQuestion) 8 (page lastQuestion)))) = 8
   \<and> questionCount (conversation (fst (submitAnswer (page lastQuestion) 8 (page lastQuestion)))) = 8
   \<and> ended (step 8 SubmitClick lastQuestion)
   \<and> questionCount (conversation (page (step 8 SubmitClick lastQuestion))) = 8
   \<and> questionCount (conversation (page (deliver nineAnswers (mount (Some exampleConfig) False 0))))
       \<le> 8"
proof -
  have h: "trim (answer firstAnswerPage) \<noteq> []" by code_simp
  have c: "questionIndex firstAnswerPage + 1 < totalQuestions firstAnswerPage" by code_simp
  have k: "map itype (conversation firstAnswerPage) = [question_item]" by code_simp
  have q: "questionIndex firstAnswerPage = 0" by code_simp
  have h': "trim (answer (page lastQuestion)) \<noteq> []" by code_simp
  have c': "\<not> questionIndex (page lastQuestion) + 1 < totalQuestions (page lastQuestion)"
    by code_simp
  have g': "config (page lastQuestion) \<noteq> None" by code_simp
  have q': "questionIndex (page lastQuestion) = 7" by code_simp
  have n': "questionCount (conversation (page lastQuestion)) = 8" by code_simp
  have a': "answerCount (conversation (page lastQuestion)) = 7" by code_simp
  have e': "\<not> ended lastQuestion" by code_simp
  note first = submitAnswer_sequencing
                 [OF h, of 1 lastQuestion nineAnswers "Some exampleConfig" False 0]
  note final = submitAnswer_sequencing
                 [OF h', of 8 lastQuestion nineAnswers "Some exampleConfig" False 0]
  show ?thesis
    using h c k q h' c' g' q' n' a' e' first final
    by (simp add: questionCount_def answerCount_def)
qed

text \<open>
  C4. With an empty or blank answer, \<open>submitAnswer\<close> only sets the error message:
  \<open>questionIndex\<close>, the log and the answer buffer stay as they are, no question is asked
  and \<open>endInterview\<close> is not called.
\<close>

theorem submitAnswer_blank_rejected:
  assumes "trim (answer s) = []"
  shows "submitAnswer s now s = (s\<lparr>error := ''Please provide an answer before continuing.''\<rparr>, [])
     \<and> questionIndex (fst (submitAnswer s now s)) = questionIndex s
     \<and> conversation (fst (submitAnswer s now s)) = conversation s
     \<and> answer (fst (submitAnswer s now s)) = answer s
     \<and> snd (submitAnswer s now s) = []"
  using assms by (simp add: submitAnswer_def)

theorem submitAnswer_blank_rejected_witness:
  "answer blankAnswerPage = ''   '' \<and> trim (answer blankAnswerPage) = []
   \<and> submitAnswer blankAnswerPage 7 blankAnswerPage
       = (blankAnswerPage\<lparr>error := ''Please provide an answer before continuing.''\<rparr>, [])
   \<and> answer initialPage = [] \<and> trim (answer initialPage) = []
   \<and> submitAnswer initialPage 7 initialPage
       = (initialPage\<lparr>error := ''Please provide an answer before continuing.''\<rparr>, [])"
proof -
  have a: "trim (answer blankAnswerPage) = []" by code_simp
  have a': "answer blankAnswerPage = ''   ''" by code_simp
  have b: "trim (answer initialPage) = []" by code_simp
  have b': "answer initialPage = []" by code_simp
  show ?thesis
    using a a' b b' submitAnswer_blank_rejected [OF a, of 7] submitAnswer_blank_rejected [OF b, of 7]
    by simp
qed

section \<open>The conversation log and the counters\<close>

text \<open>
  C2, as the page has it. Whatever events the page takes, the log has at most one question
  more than answers and no two neighbouring questions. As long as the log holds no more
  than eight answers, it has at most as many answers as questions and no two neighbouring
  entries of the same kind; this is so in every state of a session that takes events only
  until it has ended.
\<close>

theorem conversation_alternates:
  "questionCount (conversation (page (deliver evs (mount saved speech t0))))
     \<le> answerCount (conversation (page (deliver evs (mount saved speech t0)))) + 1
   \<and> noAdjacentQuestions (map itype (conversation (page (deliver evs (mount saved speech t0)))))
   \<and> (answerCount (conversation (page (deliver evs (mount saved speech t0)))) \<le> 8 \<longrightarrow>
        answerCount (conversation (page (deliver evs (mount saved speech t0))))
          \<le> questionCount (conversation (page (deliver evs (mount saved speech t0))))
        \<and> alternating (map itype (conversation (page (deliver evs (mount saved speech t0))))))
   \<and> answerCount (conversation (page (run evs (mount saved speech t0))))
       \<le> questionCount (conversation (page (run evs (mount saved speech t0))))
   \<and> questionCount (conversation (page (run evs (mount saved speech t0))))
       \<le> answerCount (conversation (page (run evs (mount saved speech t0)))) + 1
   \<and> alternating (map itype (conversation (page (run evs (mount saved speech t0)))))"
proof -
  let ?d = "deliver evs (mount saved speech t0)"
  let ?w = "run evs (mount saved speech t0)"
  have dinv: "log_inv ?d"
    by (rule log_inv_deliver) (rule log_inv_mount)
  have D: "questionCount (conversation (page ?d)) \<le> answerCount (conversation (page ?d)) + 1
     \<and> noAdjacentQuestions (map itype (conversation (page ?d)))
     \<and> (answerCount (conversation (page ?d)) \<le> 8 \<longrightarrow>
          answerCount (conversation (page ?d)) \<le> questionCount (conversation (page ?d))
          \<and> alternating (map itype (conversation (page ?d))))"
  proof (cases "config (page ?d)")
    case None
    with dinv have "conversation (page ?d) = []" by (simp add: log_inv_def)
    then show ?thesis by (simp add: questionCount_def answerCount_def)
  next
    case (Some c)
    with dinv obtain k where
      k: "map itype (conversation (page ?d)) =
            rounds (questionIndex (page ?d)) @ [question_item] @ replicate k answer_item"
      and k0: "k = 0 \<or> questionIndex (page ?d) = 7"
      by (auto simp: log_inv_def)
    note cnt = counts_tail [OF k]
    have nq: "noAdjacentQuestions (map itype (conversation (page ?d)))"
      unfolding k by (rule noAdjacentQuestions_tail)
    have alt: "alternating (map itype (conversation (page ?d)))"
      if le: "answerCount (conversation (page ?d)) \<le> 8"
    proof -
      from k0 le cnt have "k = 0 \<or> k = 1" by auto
      then show ?thesis
      proof
        assume "k = 0"
        then have "map itype (conversation (page ?d)) =
                     rounds (questionIndex (page ?d)) @ [question_item]"
          using k by simp
        moreover have "alternating (rounds (questionIndex (page ?d)) @ [question_item])"
          by (rule alternating_rounds_append) simp
        ultimately show ?thesis by simp
      next
        assume "k = 1"
        then have "map itype (conversation (page ?d)) = rounds (Suc (questionIndex (page ?d)))"
          using k by (simp add: rounds_Suc)
        moreover have "alternating (rounds (Suc (questionIndex (page ?d))) @ [])"
          by (rule alternating_rounds_append) simp
        ultimately show ?thesis by simp
      qed
    qed
    have le: "answerCount (conversation (page ?d)) \<le> questionCount (conversation (page ?d))"
      if "answerCount (conversation (page ?d)) \<le> 8"
      using that k0 cnt by auto
    show ?thesis using cnt nq alt le by simp
  qed
  have inv: "conv_inv ?w"
    by (rule conv_inv_run) (rule conv_inv_mount)
  have R: "answerCount (conversation (page ?w)) \<le> questionCount (conversation (page ?w))
     \<and> questionCount (conversation (page ?w)) \<le> answerCount (conversation (page ?w)) + 1
     \<and> alternating (map itype (conversation (page ?w)))"
  proof (cases "config (page ?w)")
    case None
    with inv have "conversation (page ?w) = []" by (simp add: conv_inv_def)
    then show ?thesis by (simp add: questionCount_def answerCount_def)
  next
    case (Some c)
    with inv have
      "map itype (conversation (page ?w)) = rounds (questionIndex (page ?w)) @ [question_item]
       \<or> map itype (conversation (page ?w)) = rounds (Suc (questionIndex (page ?w)))"
      by (auto simp: conv_inv_def)
    then show ?thesis
    proof
      assume k: "map itype (conversation (page ?w))
                   = rounds (questionIndex (page ?w)) @ [question_item]"
      have "alternating (rounds (questionIndex (page ?w)) @ [question_item])"
        by (rule alternating_rounds_append) simp
      then show ?thesis using counts_open [OF k] by (simp add: k)
    next
      assume k: "map itype (conversation (page ?w)) = rounds (Suc (questionIndex (page ?w)))"
      have "alternating (rounds (Suc (questionIndex (page ?w))) @ [])"
        by (rule alternating_rounds_append) simp
      then show ?thesis using counts_closed [OF k] by (simp add: k)
    qed
  qed
  show ?thesis using D R by simp
qed

theorem conversation_alternates_witness:
  "answerCount (conversation (page (deliver eightAnswers (mount (Some exampleConfig) False 0)))) \<le> 8
   \<and> questionCount (conversation (page (deliver eightAnswers (mount (Some exampleConfig) False 0)))) = 8
   \<and> answerCount (conversation (page (deliver eightAnswers (mount (Some exampleConfig) False 0)))) = 8
   \<and> alternating
       (map itype (conversation (page (deliver eightAnswers (mount (Some exampleConfig) False 0)))))
   \<and> alternating
       (map itype (conversation (page (run eightAnswers (mount (Some exampleConfig) False 0)))))"
proof -
  have q: "questionCount
             (conversation (page (deliver eightAnswers (mount (Some exampleConfig) False 0)))) = 8"
    by code_simp
  have a: "answerCount
             (conversation (page (deliver eightAnswers (mount (Some exampleConfig) False 0)))) = 8"
    by code_simp
  show ?thesis
    using q a conversation_alternates [of eightAnswers "Some exampleConfig" False 0] by simp
qed

text \<open>
  C2 as stated covers every state of the log. \<open>submitAnswer\<close> does not ask whether the
  session has ended: after the eight answers of \<open>exampleConfig\<close>'s session, a ninth answer
  typed and submitted while the page is still mounted is appended behind the eighth one.
\<close>

theorem ninth_answer_after_end:
  "ended (deliver eightAnswers (mount (Some exampleConfig) False 0))
   \<and> answerCount (conversation (page (deliver nineAnswers (mount (Some exampleConfig) False 0)))) = 9
   \<and> questionCount (conversation (page (deliver nineAnswers (mount (Some exampleConfig) False 0)))) = 8
   \<and> \<not> alternating
       (map itype (conversation (page (deliver nineAnswers (mount (Some exampleConfig) False 0)))))
   \<and> map itype (drop 14 (conversation (page (deliver nineAnswers (mount (Some exampleConfig) False 0)))))
       = [question_item, answer_item, answer_item]"
  by code_simp

text \<open>
  C3. In every state of a session started from a saved configuration whose duration is not
  negative: \<open>questionIndex < totalQuestions\<close>, the log holds \<open>questionIndex + 1\<close>
  questions, and \<open>timeRemaining\<close> is not negative.
\<close>

theorem session_invariants:
  assumes "0 \<le> duration cfg"
  shows "questionIndex (page (run evs (mount (Some cfg) speech t0)))
           < totalQuestions (page (run evs (mount (Some cfg) speech t0)))
       \<and> questionCount (conversation (page (run evs (mount (Some cfg) speech t0))))
           = questionIndex (page (run evs (mount (Some cfg) speech t0))) + 1
       \<and> 0 \<le> timeRemaining (page (run evs (mount (Some cfg) speech t0)))"
proof -
  let ?w = "run evs (mount (Some cfg) speech t0)"
  have inv: "conv_inv ?w"
    by (rule conv_inv_run) (rule conv_inv_mount)
  have cfg: "config (page ?w) \<noteq> None"
    by (simp add: config_run config_mount)
  have "time_inv ?w"
    by (rule time_inv_run) (rule time_inv_mount [OF assms])
  then have "0 \<le> timeRemaining (page ?w)" by (simp add: time_inv_def)
  moreover have "questionIndex (page ?w) < totalQuestions (page ?w)"
    using inv by (simp add: conv_inv_def)
  ultimately show ?thesis using conv_inv_questionCount [OF inv cfg] by simp
qed

theorem session_invariants_witness:
  "0 \<le> duration exampleConfig
   \<and> questionIndex (page (run mixedEvents (mount (Some exampleConfig) True 0)))
       < totalQuestions (page (run mixedEvents (mount (Some exampleConfig) True 0)))
   \<and> questionCount (conversation (page (run mixedEvents (mount (Some exampleConfig) True 0))))
       = questionIndex (page (run mixedEvents (mount (Some exampleConfig) True 0))) + 1
   \<and> 0 \<le> timeRemaining (page (run mixedEvents (mount (Some exampleConfig) True 0)))
   \<and> timeRemaining (page (run mixedEvents (mount (Some exampleConfig) True 0))) = 1198
   \<and> questionIndex (page (run mixedEvents (mount (Some exampleConfig) True 0))) = 2"
proof -
  have h: "0 \<le> duration exampleConfig" by code_simp
  have t: "timeRemaining (page (run mixedEvents (mount (Some exampleConfig) True 0))) = 1198"
    by code_simp
  have q: "questionIndex (page (run mixedEvents (mount (Some exampleConfig) True 0))) = 2"
    by code_simp
  show ?thesis
    using h t q session_invariants [OF h, of mixedEvents True 0] by simp
qed

section \<open>Starting a session\<close>

text \<open>
  C6. Mounting the session page with a saved configuration leaves \<open>totalQuestions\<close> at 8,
  sets \<open>timeRemaining\<close> to \<open>duration * 60\<close> and issues exactly one question, the only
  entry of the log: no answer is in it yet.
\<close>

theorem mount_issues_first_question:
  "page (mount (Some cfg) speech now) =
     initialPage
       \<lparr>config := Some cfg,
        currentQuestion := Some (mockQuestions ! 0),
        timeRemaining := duration cfg * 60,
        sessionStarted := True,
        conversation :=
          [\<lparr>itype = question_item, content = qtext (mockQuestions ! 0), timestamp = now\<rparr>],
        speechSupported := speech\<rparr>
   \<and> totalQuestions (page (mount (Some cfg) speech now)) = 8
   \<and> timeRemaining (page (mount (Some cfg) speech now)) = duration cfg * 60
   \<and> questionCount (conversation (page (mount (Some cfg) speech now))) = 1
   \<and> answerCount (conversation (page (mount (Some cfg) speech now))) = 0"
  by (simp add: mount_def commit_page perform_def mountEffect_def startInterview_def
        generateNextQuestion_def pickQuestion_def Let_def initialPage_def mockQuestions_def
        questionCount_def answerCount_def)

theorem mount_issues_first_question_witness:
  "duration exampleConfig = 20
   \<and> timeRemaining (page (mount (Some exampleConfig) False 0)) = 1200
   \<and> totalQuestions (page (mount (Some exampleConfig) False 0)) = 8
   \<and> questionCount (conversation (page (mount (Some exampleConfig) False 0))) = 1
   \<and> answerCount (conversation (page (mount (Some exampleConfig) False 0))) = 0"
proof -
  have d: "duration exampleConfig = 20" by code_simp
  have "totalQuestions (page (mount (Some exampleConfig) False 0)) = 8
      \<and> timeRemaining (page (mount (Some exampleConfig) False 0)) = duration exampleConfig * 60
      \<and> questionCount (conversation (page (mount (Some exampleConfig) False 0))) = 1
      \<and> answerCount (conversation (page (mount (Some exampleConfig) False 0))) = 0"
    by (rule conjunct2 [OF mount_issues_first_question [of exampleConfig False 0]])
  then show ?thesis using d by simp
qed

text \<open>
  C9, as the setup page has it. With no role selected and a blank job description,
  \<open>handleStartInterview\<close> only raises the alert: it stores no configuration and does not
  navigate. In every other case, also when a role and a description are both given, it
  stores the configuration and navigates to the session page.
\<close>

theorem handleStartInterview_validation:
  "(if selectedRole s = [] \<and> trim (s_customJobDescription s) = []
    then storedConfigs (handleStartInterview s) = [] \<and> pushes (handleStartInterview s) = []
       \<and> alerts (handleStartInterview s) = [''Please select a role or provide a job description'']
    else storedConfigs (handleStartInterview s) =
           [\<lparr>role = selectedRole s, customJobDescription = s_customJobDescription s,
             interviewType = s_interviewType s, difficulty = s_difficulty s,
             duration = s_duration s, inputMethod = s_inputMethod s\<rparr>]
       \<and> pushes (handleStartInterview s) = [''/interview/session'']
       \<and> alerts (handleStartInterview s) = [])"
  by (simp add: handleStartInterview_def)

theorem handleStartInterview_validation_witness:
  "selectedRole initialSetup = [] \<and> trim (s_customJobDescription initialSetup) = []
   \<and> storedConfigs (handleStartInterview initialSetup) = []
   \<and> pushes (handleStartInterview initialSetup) = []
   \<and> alerts (handleStartInterview initialSetup)
       = [''Please select a role or provide a job description'']"
proof -
  have a: "selectedRole initialSetup = []" by code_simp
  have b: "trim (s_customJobDescription initialSetup) = []" by code_simp
  show ?thesis
    using a b handleStartInterview_validation [of initialSetup] by simp
qed

text \<open>
  C9 as stated asks for exactly one of role and job description. A setup with a selected
  role and a job description, both present, starts a session.
\<close>

theorem start_with_role_and_description:
  "selectedRole roleAndDescription \<noteq> []
   \<and> trim (s_customJobDescription roleAndDescription) \<noteq> []
   \<and> length (storedConfigs (handleStartInterview roleAndDescription)) = 1
   \<and> pushes (handleStartInterview roleAndDescription) = [''/interview/session'']"
  by code_simp

section \<open>Ending a session\<close>

text \<open>
  C5, as the page has it. A tick that takes an armed timer of a started session from one
  second to zero calls \<open>endInterview\<close> once and leaves no timeout pending; any other tick of
  an armed timer only counts down; a tick with no pending timeout changes nothing. A click
  on End Interview never changes the page state, and on a loaded page it calls
  \<open>endInterview\<close> each time; every call of \<open>endInterview\<close> writes one record. A session,
  receiving events only until it has ended, writes at most one record.
\<close>

theorem timer_expiry_ends_once:
  "(if timerArmed w
    then (if sessionStarted (page w) \<and> timeRemaining (page w) = 1
          then step now Tick w =
                 w\<lparr>page := (page w)\<lparr>timeRemaining := 0\<rparr>, timerArmed := False,
                   trace := trace w @ endInterview ((page w)\<lparr>timeRemaining := 0\<rparr>) now\<rparr>
          else page (step now Tick w) = (page w)\<lparr>timeRemaining := timeRemaining (page w) - 1\<rparr>)
    else step now Tick w = w)
   \<and> page (step now EndClick w) = page w
   \<and> trace (step now EndClick w) =
       (if config (page w) = None then trace w else trace w @ endInterview (page w) now)
   \<and> persisted (endInterview s now) = [interviewData s now]
   \<and> length (persisted (trace (run evs (mount saved speech t0)))) \<le> 1"
  using persisted_run_le [of evs saved speech t0]
  by (simp add: step_def commit_def deps_def timerEffect_def perform_def endInterview_def)

theorem timer_expiry_ends_once_witness:
  "timerArmed lastSecond \<and> sessionStarted (page lastSecond) \<and> timeRemaining (page lastSecond) = 1
   \<and> persisted (trace lastSecond) = []
   \<and> timeRemaining (page (step 1200 Tick lastSecond)) = 0
   \<and> \<not> timerArmed (step 1200 Tick lastSecond)
   \<and> length (persisted (trace (step 1200 Tick lastSecond))) = 1
   \<and> step 1201 Tick (step 1200 Tick lastSecond) = step 1200 Tick lastSecond"
proof -
  have a: "timerArmed lastSecond" unfolding lastSecond_eq by code_simp
  have b: "sessionStarted (page lastSecond)" unfolding lastSecond_eq by code_simp
  have c: "timeRemaining (page lastSecond) = 1" unfolding lastSecond_eq by code_simp
  have d: "persisted (trace lastSecond) = []" unfolding lastSecond_eq by code_simp
  have e: "step 1200 Tick lastSecond =
             lastSecond\<lparr>page := (page lastSecond)\<lparr>timeRemaining := 0\<rparr>, timerArmed := False,
               trace := trace lastSecond @
                 endInterview ((page lastSecond)\<lparr>timeRemaining := 0\<rparr>) 1200\<rparr>"
    using a b c timer_expiry_ends_once [of lastSecond 1200] by simp
  have f: "\<not> timerArmed (step 1200 Tick lastSecond)" by (simp add: e)
  have g: "step 1201 Tick (step 1200 Tick lastSecond) = step 1200 Tick lastSecond"
    using f timer_expiry_ends_once [of "step 1200 Tick lastSecond" 1201] by simp
  have h: "length (persisted (trace (step 1200 Tick lastSecond))) = 1"
    using d by (simp add: e persisted_append endInterview_def)
  show ?thesis using a b c d f g h by (simp add: e)
qed

text \<open>
  C5 as stated makes \<open>endInterview\<close> a no-op on a session that has ended. On the page of
  \<open>exampleConfig\<close>, a first click on End Interview ends the session and writes one record;
  a second click, which the page takes as long as it is mounted, writes a second one.
\<close>

theorem double_end_persists_twice:
  "ended (step 1 EndClick (mount (Some exampleConfig) False 0))
   \<and> length (persisted (trace (step 1 EndClick (mount (Some exampleConfig) False 0)))) = 1
   \<and> length (persisted (trace
        (step 2 EndClick (step 1 EndClick (mount (Some exampleConfig) False 0))))) = 2"
  by code_simp

section \<open>The interview record\<close>

text \<open>
  When the last answer is submitted, \<open>endInterview\<close> is the closure of the render that the
  click came from: the record holds the log of that render, while the answer is appended
  to the log of the next one.
\<close>

lemma final_submit_snapshot:
  assumes "trim (answer s) \<noteq> []" and "\<not> questionIndex s + 1 < totalQuestions s"
  shows "persisted (snd (submitAnswer s now s)) = [interviewData s now]"
    and "conversation (fst (submitAnswer s now s)) =
           d_conversation (interviewData s now) @
             [\<lparr>itype = answer_item, content = answer s, timestamp = now\<rparr>]"
  using assms by (simp_all add: submitAnswer_def endInterview_def interviewData_def)

text \<open>
  C7, on the session of \<open>exampleConfig\<close> with all eight questions answered: the log has 16
  entries and ends with the answer \<open>h\<close> given at time 8, and the one record written holds
  the log without this last entry.
\<close>

theorem record_misses_final_answer:
  "map d_conversation (persisted (trace (run eightAnswers (mount (Some exampleConfig) False 0))))
     = [butlast (conversation (page (run eightAnswers (mount (Some exampleConfig) False 0))))]
   \<and> length (conversation (page (run eightAnswers (mount (Some exampleConfig) False 0)))) = 16
   \<and> last (conversation (page (run eightAnswers (mount (Some exampleConfig) False 0))))
       = \<lparr>itype = answer_item, content = ''h'', timestamp = 8\<rparr>"
  by code_simp

text \<open>
  C10. The record's \<open>questionsAnswered\<close> is always \<open>questionIndex + 1\<close>. In a session that
  has not ended this is the number of questions in the log, the open one included; the
  record written by a click on End Interview, or by the tick that takes the timer to zero,
  holds the log as it is, and \<open>questionsAnswered\<close> is larger than the number of answers
  in it.
\<close>

theorem questionsAnswered_counts_open_question:
  assumes "w = run evs (mount (Some cfg) speech t0)" and "\<not> ended w"
  shows "questionsAnswered (interviewData s now) = questionIndex s + 1
     \<and> questionIndex (page w) + 1 = questionCount (conversation (page w))
     \<and> trace (step now EndClick w) =
         trace w @ [SetItem ''lastInterview'' (StoredInterview (interviewData (page w) now)),
                    Push ''/interview/feedback'']
     \<and> d_conversation (interviewData (page w) now) = conversation (page w)
     \<and> answerCount (conversation (page w)) < questionsAnswered (interviewData (page w) now)
     \<and> (timerArmed w \<and> timeRemaining (page w) = 1 \<longrightarrow>
          trace (step now Tick w) =
            trace w @ [SetItem ''lastInterview''
                         (StoredInterview (interviewData ((page w)\<lparr>timeRemaining := 0\<rparr>) now)),
                       Push ''/interview/feedback'']
          \<and> d_conversation (interviewData ((page w)\<lparr>timeRemaining := 0\<rparr>) now)
              = conversation (page w)
          \<and> answerCount (conversation (page w))
              < questionsAnswered (interviewData ((page w)\<lparr>timeRemaining := 0\<rparr>) now))"
proof -
  have inv: "conv_inv w"
    unfolding assms(1) by (rule conv_inv_run) (rule conv_inv_mount)
  have cfg: "config (page w) = Some cfg"
    unfolding assms(1) by (simp add: config_run config_mount)
  have k: "map itype (conversation (page w)) = rounds (questionIndex (page w)) @ [question_item]"
    using inv assms(2) cfg by (simp add: conv_inv_def)
  have started: "sessionStarted (page w)"
    using inv cfg by (simp add: conv_inv_def)
  note c = counts_open [OF k]
  show ?thesis
    using c cfg started
    by (simp add: interviewData_def step_def commit_def deps_def timerEffect_def perform_def
          endInterview_def)
qed

theorem questionsAnswered_counts_open_question_witness:
  "\<not> ended oneAnswered
   \<and> questionIndex (page oneAnswered) = 1
   \<and> questionCount (conversation (page oneAnswered)) = 2
   \<and> answerCount (conversation (page oneAnswered)) = 1
   \<and> questionsAnswered (interviewData (page oneAnswered) 9) = 2
   \<and> persisted (trace (step 9 EndClick oneAnswered)) = [interviewData (page oneAnswered) 9]"
proof -
  have h: "\<not> ended oneAnswered" by code_simp
  have q: "questionIndex (page oneAnswered) = 1" by code_simp
  have a: "answerCount (conversation (page oneAnswered)) = 1" by code_simp
  have t: "persisted (trace oneAnswered) = []" by code_simp
  have e: "oneAnswered
             = run [(1, Change ''a''), (1, SubmitClick)] (mount (Some exampleConfig) False 0)"
    by (simp only: oneAnswered_def)
  show ?thesis
    using h q a t
      questionsAnswered_counts_open_question [OF e h, of "page oneAnswered" 9]
    by (simp add: persisted_append)
qed

section \<open>The shape of an API result\<close>

text \<open>
  C8. Whatever the base URL, the token, the endpoint, the options and the behaviour of the
  network, the result of \<open>request\<close> has exactly one of the keys \<open>data\<close> and \<open>error\<close>
  (and never the key \<open>message\<close>); it has \<open>data\<close> exactly when the fetch resolved to a
  response with \<open>ok\<close> whose body parsed.
\<close>

theorem request_data_xor_error:
  "(resp_data (request baseUrl token fetch endpoint options) = None)
     = (resp_error (request baseUrl token fetch endpoint options) \<noteq> None)
   \<and> resp_message (request baseUrl token fetch endpoint options) = None"
  by (simp add: request_def caught_def Let_def split: sum.splits option.splits)

theorem request_data_xor_error_witness:
  "resp_data (request ''http://localhost:8001'' None okNull ''/feedback/1'' getInit) = Some JNull
   \<and> resp_error (request ''http://localhost:8001'' None okNull ''/feedback/1'' getInit) = None
   \<and> resp_data (request ''http://localhost:8001'' (Some ''t'') notFound ''/feedback/1'' getInit)
       = None
   \<and> resp_error (request ''http://localhost:8001'' (Some ''t'') notFound ''/feedback/1'' getInit)
       = Some (JString ''HTTP error! status: 404'')
   \<and> resp_data (request ''http://localhost:8001'' None offline ''/feedback/1'' getInit) = None
   \<and> resp_error (request ''http://localhost:8001'' None offline ''/feedback/1'' getInit)
       = Some (JString ''Failed to fetch'')"
proof -
  have a: "resp_data (request ''http://localhost:8001'' None okNull ''/feedback/1'' getInit)
             = Some JNull"
    by code_simp
  have b: "resp_error (request ''http://localhost:8001'' (Some ''t'') notFound ''/feedback/1'' getInit)
             = Some (JString ''HTTP error! status: 404'')"
    by code_simp
  have c: "resp_error (request ''http://localhost:8001'' None offline ''/feedback/1'' getInit)
             = Some (JString ''Failed to fetch'')"
    by code_simp
  show ?thesis
    using a b c
      request_data_xor_error [of "''http://localhost:8001''" None okNull "''/feedback/1''" getInit]
      request_data_xor_error [of "''http://localhost:8001''" "Some ''t''" notFound "''/feedback/1''" getInit]
      request_data_xor_error [of "''http://localhost:8001''" None offline "''/feedback/1''" getInit]
    by simp
qed

end
